theory Spec2Isabelle
  imports Main "HOL-Library.Sublist" "HOL-Library.AList"
begin

section \<open>Responses\<close>

text \<open>
  A response carries a status, an ordered list of headers (a name may repeat, as
  \<^verbatim>\<open>Set-Cookie\<close> does) and a body. The body is \<^verbatim>\<open>null\<close>, the JSON object
  \<^verbatim>\<open>{message}\<close>, the message of an error response, or the byte stream of a stored object.
\<close>

datatype body = No_body | Json_message string | Error_message string | Stream string

record response =
  status :: nat
  headers :: "(string \<times> string) list"
  resp_body :: body

text \<open>
  Modelled from the spec: errorResponse of \<^verbatim>\<open>functions/utils\<close> is imported by the handlers
  and is not part of the sources at hand. The spec gives an error response an explicit status
  code and a message, and no cookies.
\<close>

definition errorResponse :: "nat \<Rightarrow> string \<Rightarrow> response" where
  "errorResponse statusCode message =
     \<lparr>status = statusCode, headers = [], resp_body = Error_message message\<rparr>"

text \<open>\<^verbatim>\<open>Response.redirect(url, 302)\<close> of the platform: a \<^verbatim>\<open>Location\<close> header and no body.\<close>

definition redirect :: "string \<Rightarrow> nat \<Rightarrow> response" where
  "redirect url code = \<lparr>status = code, headers = [(''Location'', url)], resp_body = No_body\<rparr>"

definition set_cookies :: "response \<Rightarrow> string list" where
  "set_cookies r = map snd (filter (\<lambda>kv. fst kv = ''Set-Cookie'') (headers r))"

definition header :: "string \<Rightarrow> response \<Rightarrow> string option" where
  "header name r = map_of (headers r) name"

section \<open>JavaScript values\<close>

text \<open>
  \<^verbatim>\<open>!s\<close> on a value that is a string, \<^verbatim>\<open>null\<close> or \<^verbatim>\<open>undefined\<close>: the empty string is
  falsy as well.
\<close>

fun truthy :: "string option \<Rightarrow> bool" where
  "truthy None = False"
| "truthy (Some s) = (s \<noteq> [])"

text \<open>\<^verbatim>\<open>String.prototype.includes\<close>: the pattern occurs as a contiguous substring.\<close>

fun str_includes :: "string \<Rightarrow> string \<Rightarrow> bool" where
  "str_includes [] p = (p = [])"
| "str_includes (c # cs) p = (if prefix p (c # cs) then True else str_includes cs p)"

text \<open>\<^verbatim>\<open>Array.prototype.join("/")\<close>.\<close>

fun join_slash :: "string list \<Rightarrow> string" where
  "join_slash [] = []"
| "join_slash [s] = s"
| "join_slash (s # t # ss) = s @ ''/'' @ join_slash (t # ss)"

text \<open>
  The route parameter of the catch-all segment \<^verbatim>\<open>[[user_id]]\<close>: missing, one string, or an
  array of strings.
\<close>

datatype param = Absent | Single string | Multi "string list"

text \<open>\<^verbatim>\<open>Array.isArray(user_id) && user_id.length === 2\<close>, giving the two segments.\<close>

fun two_segments :: "param \<Rightarrow> (string \<times> string) option" where
  "two_segments (Multi [user, ident]) = Some (user, ident)"
| "two_segments _ = None"

section \<open>The object store\<close>

text \<open>
  The R2 bucket is an external collaborator. It is modelled as a list of keyed objects with
  distinct keys; each operation either throws (an error message) or answers. Which operation
  throws is a parameter of the world, independent of the bucket's contents.
\<close>

record http_metadata =
  contentType :: "string option"
  contentLanguage :: "string option"
  contentDisposition :: "string option"
  contentEncoding :: "string option"
  cacheControl :: "string option"
  cacheExpiry :: "string option"

record r2object =
  obj_body :: string
  httpMetadata :: http_metadata
  httpEtag :: string
  uploaded :: int

type_synonym bucket = "(string \<times> r2object) list"

datatype r2op = Op_list | Op_get | Op_put | Op_delete

record world =
  now :: int
  fault :: "r2op \<Rightarrow> string option"
  etag_of :: "string \<Rightarrow> string"

definition no_metadata :: http_metadata where
  "no_metadata = \<lparr>contentType = None, contentLanguage = None, contentDisposition = None,
     contentEncoding = None, cacheControl = None, cacheExpiry = None\<rparr>"

text \<open>
  \<^verbatim>\<open>list({prefix})\<close>. The store answers with at most 1000 objects per call; the handler only
  compares the length with 500, and filters when it is at most 500, so the cut is not
  observable and is left out.
\<close>

definition r2_list :: "world \<Rightarrow> bucket \<Rightarrow> string \<Rightarrow> string + r2object list" where
  "r2_list w b p =
     (case fault w Op_list of
        Some e \<Rightarrow> Inl e
      | None \<Rightarrow> Inr (map snd (filter (\<lambda>kv. prefix p (fst kv)) b)))"

definition r2_get :: "world \<Rightarrow> bucket \<Rightarrow> string \<Rightarrow> string + r2object option" where
  "r2_get w b k =
     (case fault w Op_get of
        Some e \<Rightarrow> Inl e
      | None \<Rightarrow> Inr (map_of b k))"

text \<open>\<^verbatim>\<open>put(key, body)\<close> without options: no HTTP metadata is stored with the object.\<close>

definition r2_put :: "world \<Rightarrow> bucket \<Rightarrow> string \<Rightarrow> string \<Rightarrow> string + bucket" where
  "r2_put w b k v =
     (case fault w Op_put of
        Some e \<Rightarrow> Inl e
      | None \<Rightarrow> Inr (AList.update k
          \<lparr>obj_body = v, httpMetadata = no_metadata, httpEtag = etag_of w v, uploaded = now w\<rparr> b))"

definition r2_delete :: "world \<Rightarrow> bucket \<Rightarrow> string \<Rightarrow> string + bucket" where
  "r2_delete w b k =
     (case fault w Op_delete of
        Some e \<Rightarrow> Inl e
      | None \<Rightarrow> Inr (AList.delete k b))"

text \<open>\<^verbatim>\<open>object.writeHttpMetadata(headers)\<close>: one header for each metadata field that is set.\<close>

definition opt_header :: "string \<Rightarrow> string option \<Rightarrow> (string \<times> string) list" where
  "opt_header name v = (case v of None \<Rightarrow> [] | Some s \<Rightarrow> [(name, s)])"

definition writeHttpMetadata :: "http_metadata \<Rightarrow> (string \<times> string) list" where
  "writeHttpMetadata m =
     opt_header ''content-type'' (contentType m) @
     opt_header ''content-language'' (contentLanguage m) @
     opt_header ''content-disposition'' (contentDisposition m) @
     opt_header ''content-encoding'' (contentEncoding m) @
     opt_header ''cache-control'' (cacheControl m) @
     opt_header ''expires'' (cacheExpiry m)"

text \<open>\<^verbatim>\<open>headers.set(name, value)\<close>: replaces every header of that name by one.\<close>

definition headers_set :: "string \<Rightarrow> string \<Rightarrow> (string \<times> string) list \<Rightarrow> (string \<times> string) list" where
  "headers_set name v hs = filter (\<lambda>kv. fst kv \<noteq> name) hs @ [(name, v)]"

section \<open>Imported helpers\<close>

text \<open>
  The helpers that the handlers import (\<^verbatim>\<open>getTokens\<close>, \<^verbatim>\<open>verifyToken\<close>,
  \<^verbatim>\<open>serializeToken\<close>, \<^verbatim>\<open>createToken\<close> of \<^verbatim>\<open>functions/token\<close>, \<^verbatim>\<open>requestAccessToken\<close> and
  \<^verbatim>\<open>requestUserInfo\<close> of \<^verbatim>\<open>functions/github\<close>, \<^verbatim>\<open>buildUrl\<close> of \<^verbatim>\<open>functions/utils\<close>) and the
  platform's \<^verbatim>\<open>new URL(path, base).href\<close> are parameters here. A verification throws,
  answers \<^verbatim>\<open>null\<close>, or answers the payload; of the payload the handlers read \<^verbatim>\<open>sub\<close> and
  \<^verbatim>\<open>role\<close>, each absent (or not a string) or a string. The calls inside the \<^verbatim>\<open>try\<close> block of
  the login either throw (\<open>Inl\<close> the error) or answer.
\<close>

record payload =
  sub :: "string option"
  role :: "string option"

datatype verify_result = Throws string | Null | Payload payload

record user =
  username :: string
  profile :: "(string \<times> string) list"

datatype claims = Profile user | Role_claim string

record request =
  cookie :: "string option"
  content_type :: "string option"
  req_body :: string

record helpers =
  getTokens :: "request \<Rightarrow> string option \<times> string option"
  verifyToken :: "string \<Rightarrow> string \<Rightarrow> verify_result"
  serializeToken :: "string \<Rightarrow> string \<Rightarrow> string"
  createToken :: "string \<Rightarrow> claims \<Rightarrow> string \<Rightarrow> string + string"
  requestAccessToken :: "string \<Rightarrow> string \<Rightarrow> string \<Rightarrow> string + string"
  requestUserInfo :: "string \<Rightarrow> string + user"
  buildUrl :: "string \<Rightarrow> (string \<times> string) list \<Rightarrow> string"
  url_href :: "string \<Rightarrow> string \<Rightarrow> string"

section \<open>The sharing gateway\<close>

definition oneDayMS :: int where
  "oneDayMS = 24 * 60 * 60 * 1000"

definition bad_shape :: response where
  "bad_shape = errorResponse 400 ''Expected share URL of the form /api/share/{user}/{id}''"

text \<open>\<^verbatim>\<open>contentType?.includes("application/json")\<close> on the request's \<^verbatim>\<open>Content-Type\<close>.\<close>

definition expects_json :: "request \<Rightarrow> bool" where
  "expects_json request =
     (case content_type request of None \<Rightarrow> False | Some ct \<Rightarrow> str_includes ct ''application/json'')"

definition refreshed :: "helpers \<Rightarrow> string \<Rightarrow> string \<Rightarrow> string \<Rightarrow> response" where
  "refreshed h message accessToken idToken =
     \<lparr>status = 200,
      headers = [(''Content-Type'', ''application/json; charset=utf-8''),
                 (''Set-Cookie'', serializeToken h ''access_token'' accessToken),
                 (''Set-Cookie'', serializeToken h ''id_token'' idToken)],
      resp_body = Json_message message\<rparr>"

definition recentShares :: "world \<Rightarrow> r2object list \<Rightarrow> r2object list" where
  "recentShares w objects = filter (\<lambda>ob. now w - uploaded ob < oneDayMS) objects"

text \<open>
  The first \<^verbatim>\<open>try\<close> block of \<^verbatim>\<open>onRequestPut\<close> with its \<^verbatim>\<open>catch\<close>: \<open>Some r\<close> is an early
  return of \<open>r\<close>, \<open>None\<close> is falling through to the write.
\<close>

definition put_checks :: "helpers \<Rightarrow> world \<Rightarrow> string \<Rightarrow> string \<Rightarrow> string \<Rightarrow> bucket \<Rightarrow> response option" where
  "put_checks h w JWT_SECRET accessToken user b =
     (case verifyToken h accessToken JWT_SECRET of
        Throws msg \<Rightarrow> Some (errorResponse 400 msg)
      | Null \<Rightarrow> Some (errorResponse 403 ''Invalid Access Token'')
      | Payload p \<Rightarrow>
          if Some user \<noteq> sub p then Some (errorResponse 403 ''Access Token does not match username'')
          else if role p \<noteq> Some ''api'' then Some (errorResponse 403 ''Access Token missing 'api' role'')
          else (case r2_list w b (user @ ''/'') of
                  Inl msg \<Rightarrow> Some (errorResponse 400 msg)
                | Inr objects \<Rightarrow>
                    if length objects > 500 then Some (errorResponse 403 ''Exceeded total share limit'')
                    else if length (recentShares w objects) > 10
                      then Some (errorResponse 429 ''Too many shares in a 24-hour period'')
                    else None))"

definition put_store :: "helpers \<Rightarrow> world \<Rightarrow> request \<Rightarrow> string \<Rightarrow> string \<Rightarrow> string \<Rightarrow> bucket \<Rightarrow> response \<times> bucket" where
  "put_store h w request key accessToken idToken b =
     (case r2_put w b key (req_body request) of
        Inl msg \<Rightarrow> (errorResponse 500 (''Unable to share chat: '' @ msg), b)
      | Inr b' \<Rightarrow> (refreshed h ''Chat shared successfully'' accessToken idToken, b'))"

text \<open>
  \<^verbatim>\<open>onRequestPut\<close>. Past the two cookie checks both tokens are non-empty strings, so the last
  case of the inner distinction is the path that has not two segments.
\<close>

definition onRequestPut :: "helpers \<Rightarrow> world \<Rightarrow> string \<Rightarrow> request \<Rightarrow> param \<Rightarrow> bucket \<Rightarrow> response \<times> bucket" where
  "onRequestPut h w JWT_SECRET request user_id b =
     (case getTokens h request of (accessToken, idToken) \<Rightarrow>
        if \<not> truthy accessToken then (errorResponse 403 ''Missing Access Token'', b)
        else if \<not> truthy idToken then (errorResponse 403 ''Missing ID Token'', b)
        else if \<not> expects_json request then (errorResponse 400 ''Expected JSON'', b)
        else (case (two_segments user_id, accessToken, idToken) of
                (Some (user, ident), Some a, Some i) \<Rightarrow>
                  (case put_checks h w JWT_SECRET a user b of
                     Some r \<Rightarrow> (r, b)
                   | None \<Rightarrow> put_store h w request (join_slash [user, ident]) a i b)
              | _ \<Rightarrow> (bad_shape, b)))"

definition onRequestGet :: "world \<Rightarrow> param \<Rightarrow> bucket \<Rightarrow> response" where
  "onRequestGet w user_id b =
     (case two_segments user_id of
        None \<Rightarrow> bad_shape
      | Some (user, ident) \<Rightarrow>
          (case r2_get w b (join_slash [user, ident]) of
             Inl msg \<Rightarrow> errorResponse 500 (''Unable to get chat: '' @ msg)
           | Inr None \<Rightarrow> errorResponse 404 (join_slash [user, ident] @ '' not found'')
           | Inr (Some ob) \<Rightarrow>
               \<lparr>status = 200,
                headers = headers_set ''etag'' (httpEtag ob) (writeHttpMetadata (httpMetadata ob)),
                resp_body = Stream (obj_body ob)\<rparr>))"

text \<open>
  The first \<^verbatim>\<open>try\<close> block of \<^verbatim>\<open>onRequestDelete\<close> with its \<^verbatim>\<open>catch\<close>. With the payload
  \<^verbatim>\<open>null\<close>, \<^verbatim>\<open>payload?.sub\<close> is \<^verbatim>\<open>undefined\<close> and differs from every user.
\<close>

definition delete_checks :: "helpers \<Rightarrow> string \<Rightarrow> string \<Rightarrow> string \<Rightarrow> response option" where
  "delete_checks h JWT_SECRET accessToken user =
     (case verifyToken h accessToken JWT_SECRET of
        Throws msg \<Rightarrow> Some (errorResponse 400 msg)
      | Null \<Rightarrow> Some (errorResponse 403 ''Access Token does not match username'')
      | Payload p \<Rightarrow>
          if Some user \<noteq> sub p then Some (errorResponse 403 ''Access Token does not match username'')
          else if role p \<noteq> Some ''api'' then Some (errorResponse 403 ''Access Token missing 'api' role'')
          else None)"

definition delete_store :: "helpers \<Rightarrow> world \<Rightarrow> string \<Rightarrow> string \<Rightarrow> string \<Rightarrow> bucket \<Rightarrow> response \<times> bucket" where
  "delete_store h w key accessToken idToken b =
     (case r2_delete w b key of
        Inl msg \<Rightarrow> (errorResponse 500 (''Unable to share chat: '' @ msg), b)
      | Inr b' \<Rightarrow> (refreshed h ''Chat deleted successfully'' accessToken idToken, b'))"

definition onRequestDelete :: "helpers \<Rightarrow> world \<Rightarrow> string \<Rightarrow> request \<Rightarrow> param \<Rightarrow> bucket \<Rightarrow> response \<times> bucket" where
  "onRequestDelete h w JWT_SECRET request user_id b =
     (case getTokens h request of (accessToken, idToken) \<Rightarrow>
        if \<not> truthy accessToken then (errorResponse 403 ''Missing Access Token'', b)
        else if \<not> truthy idToken then (errorResponse 403 ''Missing ID Token'', b)
        else (case (two_segments user_id, accessToken, idToken) of
                (Some (user, ident), Some a, Some i) \<Rightarrow>
                  (case delete_checks h JWT_SECRET a user of
                     Some r \<Rightarrow> (r, b)
                   | None \<Rightarrow> delete_store h w (join_slash [user, ident]) a i b)
              | _ \<Rightarrow> (bad_shape, b)))"

section \<open>The login orchestrator\<close>

text \<open>The query of the provider redirect: the chat id rides along as \<^verbatim>\<open>state\<close> when there is one.\<close>

definition authorize_params :: "string option \<Rightarrow> string \<Rightarrow> (string \<times> string) list" where
  "authorize_params chatId CLIENT_ID =
     (case chatId of
        None \<Rightarrow> [(''client_id'', CLIENT_ID)]
      | Some c \<Rightarrow> if c = [] then [(''client_id'', CLIENT_ID)]
                  else [(''client_id'', CLIENT_ID), (''state'', c)])"

definition return_path :: "string option \<Rightarrow> string" where
  "return_path chatId =
     (case chatId of None \<Rightarrow> ''/'' | Some c \<Rightarrow> if c = [] then ''/'' else ''/c/'' @ c)"

text \<open>The \<^verbatim>\<open>try\<close> block of \<^verbatim>\<open>handleLogin\<close>: \<open>Inl\<close> is an exception on its way to the \<^verbatim>\<open>catch\<close>.\<close>

definition complete_login :: "helpers \<Rightarrow> string \<Rightarrow> string option \<Rightarrow> string \<Rightarrow> string \<Rightarrow> string \<Rightarrow> string + response" where
  "complete_login h code chatId CLIENT_ID CLIENT_SECRET JWT_SECRET =
     (case requestAccessToken h code CLIENT_ID CLIENT_SECRET of
        Inl err \<Rightarrow> Inl err
      | Inr ghAccessToken \<Rightarrow>
     (case requestUserInfo h ghAccessToken of
        Inl err \<Rightarrow> Inl err
      | Inr usr \<Rightarrow>
     (case createToken h (username usr) (Profile usr) JWT_SECRET of
        Inl err \<Rightarrow> Inl err
      | Inr idToken \<Rightarrow>
     (case createToken h (username usr) (Role_claim ''api'') JWT_SECRET of
        Inl err \<Rightarrow> Inl err
      | Inr accessToken \<Rightarrow>
          Inr \<lparr>status = 302,
               headers = [(''Location'', url_href h (return_path chatId) ''https://chatcraft.org''),
                          (''Set-Cookie'', serializeToken h ''access_token'' accessToken),
                          (''Set-Cookie'', serializeToken h ''id_token'' idToken)],
               resp_body = No_body\<rparr>))))"

definition handleLogin :: "helpers \<Rightarrow> string option \<Rightarrow> string option \<Rightarrow> string \<Rightarrow> string \<Rightarrow> string \<Rightarrow> response" where
  "handleLogin h code chatId CLIENT_ID CLIENT_SECRET JWT_SECRET =
     (case code of
        None \<Rightarrow> redirect (buildUrl h ''https://github.com/login/oauth/authorize''
                   (authorize_params chatId CLIENT_ID)) 302
      | Some c \<Rightarrow>
          if c = [] then redirect (buildUrl h ''https://github.com/login/oauth/authorize''
                   (authorize_params chatId CLIENT_ID)) 302
          else (case complete_login h c chatId CLIENT_ID CLIENT_SECRET JWT_SECRET of
                  Inl err \<Rightarrow> redirect ''https://chatcraft.org/?github_login_error'' 302
                | Inr r \<Rightarrow> r))"

section \<open>Concrete inputs\<close>

definition demo_payload :: "string \<Rightarrow> verify_result" where
  "demo_payload t =
     (if t = ''alice-token'' then Payload \<lparr>sub = Some ''alice'', role = Some ''api''\<rparr>
      else if t = ''reader-token'' then Payload \<lparr>sub = Some ''alice'', role = None\<rparr>
      else if t = ''throwing-token'' then Throws ''signature verification failed''
      else Null)"

definition demo_user :: user where
  "demo_user = \<lparr>username = ''alice'', profile = [(''name'', ''Alice'')]\<rparr>"

text \<open>
  Helpers for concrete runs: the access token is the cookie string, the identity token is
  fixed, and the provider accepts the code \<^verbatim>\<open>good\<close> only.
\<close>

definition demo_helpers :: helpers where
  "demo_helpers =
     \<lparr>getTokens = (\<lambda>r. case cookie r of None \<Rightarrow> (None, None) | Some c \<Rightarrow> (Some c, Some ''id-token'')),
      verifyToken = (\<lambda>t secret. demo_payload t),
      serializeToken = (\<lambda>name t. name @ ''='' @ t),
      createToken = (\<lambda>subject c secret. Inr (''jwt-'' @ subject)),
      requestAccessToken = (\<lambda>code cid csecret. if code = ''good'' then Inr ''gh-token'' else Inl ''bad_verification_code''),
      requestUserInfo = (\<lambda>t. Inr demo_user),
      buildUrl = (\<lambda>url ps. url),
      url_href = (\<lambda>path base. base @ path)\<rparr>"

definition demo_world :: world where
  "demo_world = \<lparr>now = 200000000, fault = (\<lambda>opn. None), etag_of = (\<lambda>v. ''etag'')\<rparr>"

definition broken_world :: world where
  "broken_world = \<lparr>now = 200000000, fault = (\<lambda>opn. Some ''store unreachable''), etag_of = (\<lambda>v. ''etag'')\<rparr>"

definition demo_request :: "string option \<Rightarrow> string option \<Rightarrow> request" where
  "demo_request c ct = \<lparr>cookie = c, content_type = ct, req_body = ''{}''\<rparr>"

definition demo_object :: "int \<Rightarrow> r2object" where
  "demo_object t =
     \<lparr>obj_body = ''chat'', httpMetadata = no_metadata\<lparr>contentType := Some ''application/json''\<rparr>,
      httpEtag = ''abc'', uploaded = t\<rparr>"

text \<open>A bucket of \<open>n\<close> objects of one owner, with distinct keys, all uploaded at time \<open>t\<close>.\<close>

definition demo_bucket :: "string \<Rightarrow> nat \<Rightarrow> int \<Rightarrow> bucket" where
  "demo_bucket owner n t = map (\<lambda>k. (owner @ ''/'' @ replicate (Suc k) CHR ''x'', demo_object t)) [0..<n]"

section \<open>Basic facts about responses\<close>

lemma status_errorResponse: "status (errorResponse c m) = c"
  by (simp add: errorResponse_def)

lemma cookies_errorResponse: "set_cookies (errorResponse c m) = []"
  by (simp add: errorResponse_def set_cookies_def)

lemma status_refreshed: "status (refreshed h m a i) = 200"
  by (simp add: refreshed_def)

lemma cookies_refreshed:
  "set_cookies (refreshed h m a i) =
     [serializeToken h ''access_token'' a, serializeToken h ''id_token'' i]"
  by (simp add: refreshed_def set_cookies_def)

lemma status_bad_shape: "status bad_shape = 400"
  by (simp add: bad_shape_def status_errorResponse)

section \<open>The login orchestrator always redirects\<close>

text \<open>
  C6. Whatever the code, the chat id and the outcome of the exchange, \<open>handleLogin\<close> answers
  with status 302, a \<^verbatim>\<open>Location\<close> header and no body: the provider redirect when the code
  is missing or empty, the redirect with cookies when the exchange succeeds, the error
  redirect when anything in the \<^verbatim>\<open>try\<close> block throws.
\<close>

theorem handleLogin_always_redirects:
  "status (handleLogin h code chatId cid csecret jsecret) = 302 \<and>
   resp_body (handleLogin h code chatId cid csecret jsecret) = No_body \<and>
   (\<exists>url. header ''Location'' (handleLogin h code chatId cid csecret jsecret) = Some url)"
  by (simp add: handleLogin_def complete_login_def redirect_def header_def
        split: option.split sum.split)

text \<open>
  C7. With a code present, if the code exchange throws, or the profile fetch throws, or the
  creation of the identity token or of the access token throws, \<open>handleLogin\<close> answers with
  the redirect to \<^verbatim>\<open>https://chatcraft.org/?github_login_error\<close>, and the response has no
  \<^verbatim>\<open>Set-Cookie\<close> header.
\<close>

theorem login_failure_redirects_without_cookies:
  assumes "code \<noteq> []"
    and "(\<exists>e. requestAccessToken h code cid csecret = Inl e) \<or>
         (\<exists>gh e. requestAccessToken h code cid csecret = Inr gh \<and> requestUserInfo h gh = Inl e) \<or>
         (\<exists>gh u e. requestAccessToken h code cid csecret = Inr gh \<and> requestUserInfo h gh = Inr u \<and>
            createToken h (username u) (Profile u) jsecret = Inl e) \<or>
         (\<exists>gh u e. requestAccessToken h code cid csecret = Inr gh \<and> requestUserInfo h gh = Inr u \<and>
            createToken h (username u) (Role_claim ''api'') jsecret = Inl e)"
  shows "handleLogin h (Some code) chatId cid csecret jsecret =
           redirect ''https://chatcraft.org/?github_login_error'' 302 \<and>
         set_cookies (handleLogin h (Some code) chatId cid csecret jsecret) = []"
proof -
  from assms(2) have "\<exists>e. complete_login h code chatId cid csecret jsecret = Inl e"
    by (auto simp: complete_login_def split: sum.split)
  then obtain e where "complete_login h code chatId cid csecret jsecret = Inl e" ..
  with assms(1) have "handleLogin h (Some code) chatId cid csecret jsecret =
      redirect ''https://chatcraft.org/?github_login_error'' 302"
    by (simp add: handleLogin_def)
  then show ?thesis by (simp add: redirect_def set_cookies_def)
qed

theorem login_failure_witness:
  "''expired'' \<noteq> [] \<and>
   requestAccessToken demo_helpers ''expired'' ''id'' ''cs'' = Inl ''bad_verification_code'' \<and>
   handleLogin demo_helpers (Some ''expired'') (Some ''42'') ''id'' ''cs'' ''js'' =
     redirect ''https://chatcraft.org/?github_login_error'' 302 \<and>
   set_cookies (handleLogin demo_helpers (Some ''expired'') (Some ''42'') ''id'' ''cs'' ''js'') = []"
proof -
  have f: "requestAccessToken demo_helpers ''expired'' ''id'' ''cs'' = Inl ''bad_verification_code''"
    by (simp add: demo_helpers_def)
  have n: "''expired'' \<noteq> []" by simp
  from login_failure_redirects_without_cookies
         [of "''expired''" demo_helpers "''id''" "''cs''" "''js''" "Some ''42''"] n f
  show ?thesis by blast
qed

section \<open>Paths through the gateway\<close>

lemma two_segments_Some: "two_segments p = Some (u, i) \<longleftrightarrow> p = Multi [u, i]"
  by (induction p rule: two_segments.induct) auto

lemma put_checks_Some_status:
  "put_checks h w js a user b = Some r \<Longrightarrow> status r = 400 \<or> status r = 403 \<or> status r = 429"
  by (auto simp: put_checks_def status_errorResponse
           split: verify_result.splits if_splits sum.splits)

lemma put_checks_None:
  "put_checks h w js a user b = None \<Longrightarrow>
     \<exists>p. verifyToken h a js = Payload p \<and> sub p = Some user \<and> role p = Some ''api''"
  by (auto simp: put_checks_def split: verify_result.splits if_splits sum.splits)

lemma delete_checks_Some_status:
  "delete_checks h js a user = Some r \<Longrightarrow> status r = 400 \<or> status r = 403"
  by (auto simp: delete_checks_def status_errorResponse
           split: verify_result.splits if_splits)

lemma delete_checks_None:
  "delete_checks h js a user = None \<Longrightarrow>
     \<exists>p. verifyToken h a js = Payload p \<and> sub p = Some user \<and> role p = Some ''api''"
  by (auto simp: delete_checks_def split: verify_result.splits if_splits)

lemma put_store_cases:
  "put_store h w req key a i b = (r, b') \<Longrightarrow>
     (status r = 500 \<and> b' = b) \<or>
     (r = refreshed h ''Chat shared successfully'' a i \<and> r2_put w b key (req_body req) = Inr b')"
  by (auto simp: put_store_def status_errorResponse split: sum.splits)

lemma delete_store_cases:
  "delete_store h w key a i b = (r, b') \<Longrightarrow>
     (status r = 500 \<and> b' = b) \<or>
     (r = refreshed h ''Chat deleted successfully'' a i \<and> r2_delete w b key = Inr b')"
  by (auto simp: delete_store_def status_errorResponse split: sum.splits)

text \<open>
  Every run of a mutating handler either leaves early, with an error status and the bucket
  as it was, or reaches the store operation with both tokens, a two-segment path and the
  checks of its first \<^verbatim>\<open>try\<close> block passed.
\<close>

lemma onRequestPut_cases:
  "(status (fst (onRequestPut h w js req p b)) \<in> {400, 403, 429} \<and> snd (onRequestPut h w js req p b) = b) \<or>
   (\<exists>a i user ident. getTokens h req = (Some a, Some i) \<and> a \<noteq> [] \<and> i \<noteq> [] \<and> expects_json req \<and>
      p = Multi [user, ident] \<and> put_checks h w js a user b = None \<and>
      onRequestPut h w js req p b = put_store h w req (join_slash [user, ident]) a i b)"
proof (cases "getTokens h req")
  case (Pair at it)
  show ?thesis
  proof (cases "truthy at \<and> truthy it \<and> expects_json req")
    case False
    with Pair show ?thesis
      by (auto simp: onRequestPut_def status_errorResponse)
  next
    case True
    then obtain a i where ai: "at = Some a" "it = Some i" "a \<noteq> []" "i \<noteq> []"
      by (cases at; cases it) auto
    show ?thesis
    proof (cases "two_segments p")
      case None
      with Pair True ai show ?thesis
        by (simp add: onRequestPut_def status_bad_shape)
    next
      case (Some ui)
      then obtain user ident where ui: "two_segments p = Some (user, ident)" by (cases ui) auto
      then have p: "p = Multi [user, ident]" by (simp add: two_segments_Some)
      show ?thesis
      proof (cases "put_checks h w js a user b")
        case None
        with Pair True ai ui p show ?thesis
          by (simp add: onRequestPut_def)
      next
        case (Some r)
        with Pair True ai ui put_checks_Some_status [OF Some] show ?thesis
          by (auto simp: onRequestPut_def)
      qed
    qed
  qed
qed

lemma onRequestDelete_cases:
  "(status (fst (onRequestDelete h w js req p b)) \<in> {400, 403} \<and> snd (onRequestDelete h w js req p b) = b) \<or>
   (\<exists>a i user ident. getTokens h req = (Some a, Some i) \<and> a \<noteq> [] \<and> i \<noteq> [] \<and>
      p = Multi [user, ident] \<and> delete_checks h js a user = None \<and>
      onRequestDelete h w js req p b = delete_store h w (join_slash [user, ident]) a i b)"
proof (cases "getTokens h req")
  case (Pair at it)
  show ?thesis
  proof (cases "truthy at \<and> truthy it")
    case False
    with Pair show ?thesis
      by (auto simp: onRequestDelete_def status_errorResponse)
  next
    case True
    then obtain a i where ai: "at = Some a" "it = Some i" "a \<noteq> []" "i \<noteq> []"
      by (cases at; cases it) auto
    show ?thesis
    proof (cases "two_segments p")
      case None
      with Pair True ai show ?thesis
        by (simp add: onRequestDelete_def status_bad_shape)
    next
      case (Some ui)
      then obtain user ident where ui: "two_segments p = Some (user, ident)" by (cases ui) auto
      then have p: "p = Multi [user, ident]" by (simp add: two_segments_Some)
      show ?thesis
      proof (cases "delete_checks h js a user")
        case None
        with Pair True ai ui p show ?thesis
          by (simp add: onRequestDelete_def)
      next
        case (Some r)
        with Pair True ai ui delete_checks_Some_status [OF Some] show ?thesis
          by (auto simp: onRequestDelete_def)
      qed
    qed
  qed
qed

lemma put_checks_mismatch:
  assumes "verifyToken h a js = Payload pl" and "sub pl \<noteq> Some owner \<or> role pl \<noteq> Some ''api''"
  shows "\<exists>m. put_checks h w js a owner b = Some (errorResponse 403 m)"
  using assms by (auto simp: put_checks_def)

lemma delete_checks_mismatch:
  assumes "verifyToken h a js = Payload pl" and "sub pl \<noteq> Some owner \<or> role pl \<noteq> Some ''api''"
  shows "\<exists>m. delete_checks h js a owner = Some (errorResponse 403 m)"
  using assms by (auto simp: delete_checks_def)

lemma put_checks_unverified:
  "verifyToken h a js = Null \<Longrightarrow> put_checks h w js a user b = Some (errorResponse 403 ''Invalid Access Token'')"
  "verifyToken h a js = Throws m \<Longrightarrow> put_checks h w js a user b = Some (errorResponse 400 m)"
  by (simp_all add: put_checks_def)

lemma delete_checks_unverified:
  "verifyToken h a js = Null \<Longrightarrow>
     delete_checks h js a user = Some (errorResponse 403 ''Access Token does not match username'')"
  "verifyToken h a js = Throws m \<Longrightarrow> delete_checks h js a user = Some (errorResponse 400 m)"
  by (simp_all add: delete_checks_def)

lemma onRequestPut_early:
  assumes "fst (getTokens h req) = Some a" and "put_checks h w js a owner b = Some (errorResponse c m)"
  shows "snd (onRequestPut h w js req (Multi [owner, ident]) b) = b \<and>
         (status (fst (onRequestPut h w js req (Multi [owner, ident]) b)) = 403 \<or>
          status (fst (onRequestPut h w js req (Multi [owner, ident]) b)) = 400 \<and> \<not> expects_json req \<or>
          expects_json req \<and> fst (onRequestPut h w js req (Multi [owner, ident]) b) = errorResponse c m)"
proof (cases "getTokens h req")
  case (Pair at it)
  with assms(1) have at: "at = Some a" by simp
  show ?thesis
  proof (cases "a \<noteq> [] \<and> truthy it \<and> expects_json req")
    case False
    with Pair at show ?thesis
      by (auto simp: onRequestPut_def status_errorResponse)
  next
    case True
    then obtain i where "it = Some i" by (cases it) auto
    with Pair at True assms(2) show ?thesis
      by (simp add: onRequestPut_def)
  qed
qed

lemma onRequestDelete_early:
  assumes "fst (getTokens h req) = Some a" and "delete_checks h js a owner = Some (errorResponse c m)"
  shows "snd (onRequestDelete h w js req (Multi [owner, ident]) b) = b \<and>
         (status (fst (onRequestDelete h w js req (Multi [owner, ident]) b)) = 403 \<or>
          fst (onRequestDelete h w js req (Multi [owner, ident]) b) = errorResponse c m)"
proof (cases "getTokens h req")
  case (Pair at it)
  with assms(1) have at: "at = Some a" by simp
  show ?thesis
  proof (cases "a \<noteq> [] \<and> truthy it")
    case False
    with Pair at show ?thesis
      by (auto simp: onRequestDelete_def status_errorResponse)
  next
    case True
    then obtain i where "it = Some i" by (cases it) auto
    with Pair at True assms(2) show ?thesis
      by (simp add: onRequestDelete_def)
  qed
qed

lemma onRequestPut_proceeds:
  assumes "status (fst (onRequestPut h w js req p b)) = 200 \<or> snd (onRequestPut h w js req p b) \<noteq> b"
  shows "\<exists>a user ident pl. fst (getTokens h req) = Some a \<and> p = Multi [user, ident] \<and>
           verifyToken h a js = Payload pl \<and> sub pl = Some user \<and> role pl = Some ''api''"
proof -
  from assms onRequestPut_cases [of h w js req p b]
  obtain a i user ident where "getTokens h req = (Some a, Some i)" "p = Multi [user, ident]"
    "put_checks h w js a user b = None"
    by auto
  with put_checks_None [of h w js a user b] show ?thesis by auto
qed

lemma onRequestDelete_proceeds:
  assumes "status (fst (onRequestDelete h w js req p b)) = 200 \<or> snd (onRequestDelete h w js req p b) \<noteq> b"
  shows "\<exists>a user ident pl. fst (getTokens h req) = Some a \<and> p = Multi [user, ident] \<and>
           verifyToken h a js = Payload pl \<and> sub pl = Some user \<and> role pl = Some ''api''"
proof -
  from assms onRequestDelete_cases [of h w js req p b]
  obtain a i user ident where "getTokens h req = (Some a, Some i)" "p = Multi [user, ident]"
    "delete_checks h js a user = None"
    by auto
  with delete_checks_None [of h js a user] show ?thesis by auto
qed

text \<open>A handler changes the bucket at one key only: the path of the request, joined.\<close>

lemma onRequestPut_changes:
  assumes "map_of (snd (onRequestPut h w js req p b)) k \<noteq> map_of b k"
  shows "\<exists>a user ident pl. fst (getTokens h req) = Some a \<and> p = Multi [user, ident] \<and>
           k = user @ ''/'' @ ident \<and>
           verifyToken h a js = Payload pl \<and> sub pl = Some user \<and> role pl = Some ''api''"
proof -
  from assms have "snd (onRequestPut h w js req p b) \<noteq> b" by auto
  with onRequestPut_cases [of h w js req p b]
  obtain a i user ident where t: "getTokens h req = (Some a, Some i)" and p: "p = Multi [user, ident]"
    and pc: "put_checks h w js a user b = None"
    and run: "onRequestPut h w js req p b = put_store h w req (join_slash [user, ident]) a i b"
    by auto
  obtain r b' where rb: "put_store h w req (join_slash [user, ident]) a i b = (r, b')"
    by (cases "put_store h w req (join_slash [user, ident]) a i b")
  with run assms have ne: "map_of b' k \<noteq> map_of b k" by simp
  with put_store_cases [OF rb] have "r2_put w b (join_slash [user, ident]) (req_body req) = Inr b'"
    by auto
  then obtain v where "b' = AList.update (user @ ''/'' @ ident) v b"
    by (auto simp: r2_put_def split: option.splits)
  with ne have "k = user @ ''/'' @ ident"
    by (auto simp: update_conv' split: if_splits)
  with t p put_checks_None [OF pc] show ?thesis by auto
qed

lemma onRequestDelete_changes:
  assumes "map_of (snd (onRequestDelete h w js req p b)) k \<noteq> map_of b k"
  shows "\<exists>a user ident pl. fst (getTokens h req) = Some a \<and> p = Multi [user, ident] \<and>
           k = user @ ''/'' @ ident \<and>
           verifyToken h a js = Payload pl \<and> sub pl = Some user \<and> role pl = Some ''api''"
proof -
  from assms have "snd (onRequestDelete h w js req p b) \<noteq> b" by auto
  with onRequestDelete_cases [of h w js req p b]
  obtain a i user ident where t: "getTokens h req = (Some a, Some i)" and p: "p = Multi [user, ident]"
    and pc: "delete_checks h js a user = None"
    and run: "onRequestDelete h w js req p b = delete_store h w (join_slash [user, ident]) a i b"
    by auto
  obtain r b' where rb: "delete_store h w (join_slash [user, ident]) a i b = (r, b')"
    by (cases "delete_store h w (join_slash [user, ident]) a i b")
  with run assms have ne: "map_of b' k \<noteq> map_of b k" by simp
  with delete_store_cases [OF rb] have "r2_delete w b (join_slash [user, ident]) = Inr b'"
    by auto
  then have "b' = AList.delete (user @ ''/'' @ ident) b"
    by (auto simp: r2_delete_def split: option.splits)
  with ne have "k = user @ ''/'' @ ident"
    by (auto simp: delete_conv' split: if_splits)
  with t p delete_checks_None [OF pc] show ?thesis by auto
qed

lemma put_checks_quota:
  assumes "verifyToken h a js = Payload pl" and "sub pl = Some user" and "role pl = Some ''api''"
    and "r2_list w b (user @ ''/'') = Inr objects"
  shows "put_checks h w js a user b =
           (if length objects > 500 then Some (errorResponse 403 ''Exceeded total share limit'')
            else if length (recentShares w objects) > 10
              then Some (errorResponse 429 ''Too many shares in a 24-hour period'')
            else None)"
  using assms by (simp add: put_checks_def)

section \<open>Headers of a stored object\<close>

lemma map_of_headers_set: "map_of (headers_set name v hs) name = Some v"
  by (induction hs) (auto simp: headers_set_def)

lemma map_of_headers_set_other:
  "k \<noteq> name \<Longrightarrow> map_of (headers_set name v hs) k = map_of hs k"
  by (induction hs) (auto simp: headers_set_def)

lemma content_type_of_metadata: "map_of (writeHttpMetadata m) ''content-type'' = contentType m"
  by (simp add: writeHttpMetadata_def opt_header_def split: option.split)

lemma no_cookie_in_metadata:
  "filter (\<lambda>kv. fst kv = ''Set-Cookie'') (headers_set ''etag'' v (writeHttpMetadata m)) = []"
  by (simp add: headers_set_def writeHttpMetadata_def opt_header_def split: option.split)

lemma onRequestGet_no_cookies: "set_cookies (onRequestGet w p b) = []"
  by (simp add: onRequestGet_def bad_shape_def cookies_errorResponse
        split: option.split sum.split prod.split)
     (simp add: set_cookies_def no_cookie_in_metadata)

lemma delete_absent_key: "map_of b k = None \<Longrightarrow> AList.delete k b = b"
  by (simp add: map_of_eq_None_iff)

lemma length_update_fresh: "k \<notin> fst ` set al \<Longrightarrow> length (AList.update k v al) = Suc (length al)"
  by (induction al) auto

section \<open>Runs on the concrete inputs\<close>

lemma demo_tokens: "getTokens demo_helpers (demo_request (Some c) ct) = (Some c, Some ''id-token'')"
  by (simp add: demo_helpers_def demo_request_def)

lemma demo_no_tokens: "getTokens demo_helpers (demo_request None ct) = (None, None)"
  by (simp add: demo_helpers_def demo_request_def)

lemma demo_verify: "verifyToken demo_helpers t s = demo_payload t"
  by (simp add: demo_helpers_def)

lemma demo_verify_alice:
  "verifyToken demo_helpers ''alice-token'' s = Payload \<lparr>sub = Some ''alice'', role = Some ''api''\<rparr>"
  by (simp add: demo_verify demo_payload_def)

lemma demo_verify_garbage: "verifyToken demo_helpers ''garbage'' s = Null"
  by (simp add: demo_verify demo_payload_def)


lemma demo_json: "expects_json (demo_request c (Some ''application/json''))"
  by (simp add: expects_json_def demo_request_def)

lemma demo_not_json: "\<not> expects_json (demo_request c (Some ''text/plain''))"
  by (simp add: expects_json_def demo_request_def)

lemma demo_fault: "fault demo_world opn = None"
  by (simp add: demo_world_def)

lemma demo_now: "now demo_world = 200000000"
  by (simp add: demo_world_def)

lemma demo_object_uploaded: "uploaded (demo_object t) = t"
  by (simp add: demo_object_def)

lemma demo_object_fields:
  "obj_body (demo_object t) = ''chat''" "httpEtag (demo_object t) = ''abc''"
  "contentType (httpMetadata (demo_object t)) = Some ''application/json''"
  by (simp_all add: demo_object_def no_metadata_def)

lemma demo_bucket_Suc0: "demo_bucket ''alice'' (Suc 0) 0 = [(''alice/x'', demo_object 0)]"
  by (simp add: demo_bucket_def)

lemma length_demo_bucket: "length (demo_bucket owner n t) = n"
  by (simp add: demo_bucket_def)

lemma new_key_fresh: "''alice/new'' \<notin> fst ` set (demo_bucket ''alice'' n t)"
  by (auto simp: demo_bucket_def)

lemma list_demo_bucket:
  "r2_list demo_world (demo_bucket owner n t) (owner @ ''/'') = Inr (replicate n (demo_object t))"
  by (simp add: r2_list_def demo_fault demo_bucket_def filter_map o_def map_replicate_const)

lemma recent_replicate:
  "recentShares w (replicate n ob) = (if now w - uploaded ob < oneDayMS then replicate n ob else [])"
  by (simp add: recentShares_def)

lemma put_checks_demo_empty:
  "put_checks demo_helpers demo_world s ''alice-token'' ''alice'' [] = None"
  by (simp add: put_checks_def demo_verify demo_payload_def r2_list_def demo_fault recentShares_def)

lemma put_checks_demo:
  "put_checks demo_helpers demo_world s ''alice-token'' ''alice'' (demo_bucket ''alice'' n t) =
     (if n > 500 then Some (errorResponse 403 ''Exceeded total share limit'')
      else if n > 10 \<and> 200000000 - t < oneDayMS
        then Some (errorResponse 429 ''Too many shares in a 24-hour period'')
      else None)"
proof -
  have v: "verifyToken demo_helpers ''alice-token'' s = Payload \<lparr>sub = Some ''alice'', role = Some ''api''\<rparr>"
    by (simp add: demo_verify demo_payload_def)
  show ?thesis
    by (simp add: put_checks_quota [OF v _ _ list_demo_bucket] recent_replicate
          demo_object_uploaded demo_now)
qed

lemma put_alice_empty:
  "fst (onRequestPut demo_helpers demo_world ''s'' (demo_request (Some ''alice-token'') (Some ''application/json''))
     (Multi [''alice'', ''123'']) []) = refreshed demo_helpers ''Chat shared successfully'' ''alice-token'' ''id-token''"
  by (simp add: onRequestPut_def demo_tokens demo_json put_checks_demo_empty put_store_def r2_put_def demo_fault)

lemma put_demo:
  "onRequestPut demo_helpers demo_world s (demo_request (Some ''alice-token'') (Some ''application/json''))
     (Multi [''alice'', ''new'']) (demo_bucket ''alice'' n t) =
     (case put_checks demo_helpers demo_world s ''alice-token'' ''alice'' (demo_bucket ''alice'' n t) of
        Some r \<Rightarrow> (r, demo_bucket ''alice'' n t)
      | None \<Rightarrow> (refreshed demo_helpers ''Chat shared successfully'' ''alice-token'' ''id-token'',
          AList.update ''alice/new''
            \<lparr>obj_body = ''{}'', httpMetadata = no_metadata, httpEtag = ''etag'', uploaded = 200000000\<rparr>
            (demo_bucket ''alice'' n t)))"
proof -
  have e: "etag_of demo_world v = ''etag''" for v by (simp add: demo_world_def)
  have q: "req_body (demo_request c ct) = ''{}''" for c ct by (simp add: demo_request_def)
  show ?thesis
    by (simp add: onRequestPut_def demo_tokens demo_json put_store_def r2_put_def demo_fault
          demo_now e q split: option.split)
qed

lemma delete_alice_empty:
  "onRequestDelete demo_helpers demo_world ''s'' (demo_request (Some ''alice-token'') ct)
     (Multi [''alice'', ''123'']) [] = (refreshed demo_helpers ''Chat deleted successfully'' ''alice-token'' ''id-token'', [])"
  by (simp add: onRequestDelete_def demo_tokens delete_checks_def demo_verify demo_payload_def
        delete_store_def r2_delete_def demo_fault)

lemma put_alice_empty_bucket:
  "snd (onRequestPut demo_helpers demo_world ''s'' (demo_request (Some ''alice-token'') (Some ''application/json''))
     (Multi [''alice'', ''123'']) []) =
     [(''alice/123'', \<lparr>obj_body = ''{}'', httpMetadata = no_metadata, httpEtag = ''etag'', uploaded = 200000000\<rparr>)]"
  by (simp add: onRequestPut_def demo_tokens demo_json put_checks_demo_empty put_store_def r2_put_def demo_fault)
     (simp add: demo_world_def demo_request_def)

lemma delete_alice_stored:
  "snd (onRequestDelete demo_helpers demo_world ''s'' (demo_request (Some ''alice-token'') ct)
     (Multi [''alice'', ''x'']) (demo_bucket ''alice'' (Suc 0) 0)) = []"
  by (simp add: onRequestDelete_def demo_tokens delete_checks_def demo_verify demo_payload_def
        delete_store_def r2_delete_def demo_fault demo_bucket_Suc0)

lemma demo_bucket_two:
  "demo_bucket ''alice'' 2 0 = [(''alice/x'', demo_object 0), (''alice/xx'', demo_object 0)]"
  by (simp add: demo_bucket_def upt_rec numeral_2_eq_2)

section \<open>Quota checks of Create\<close>

text \<open>
  C1. \<open>onRequestPut\<close> compares the listing taken before the write with \<open>>\<close>:
  \<^verbatim>\<open>objects.length > 500\<close> and \<^verbatim>\<open>recentShares.length > 10\<close>. A request that passes the
  cookie, content-type, path, token, subject and role checks is therefore admitted when the
  owner's listing holds exactly 500 objects (none of them recent): the answer is 200 and the
  bucket holds 501 objects afterwards. It is admitted as well when exactly 10 objects were
  uploaded within the last 24 hours: the answer is 200 and the bucket holds 11. The
  rejections begin one object later: 501 listed objects give 403, 11 recent ones give 429.
  The comments of the source state the limits as \<^verbatim>\<open>Only 500 total shares per user\<close> and
  \<^verbatim>\<open>Only 10 shares in 24 hours\<close>.
\<close>

theorem quota_admits_write_at_limit:
  "status (fst (onRequestPut demo_helpers demo_world ''s''
       (demo_request (Some ''alice-token'') (Some ''application/json''))
       (Multi [''alice'', ''new'']) (demo_bucket ''alice'' 500 0))) = 200 \<and>
   length (snd (onRequestPut demo_helpers demo_world ''s''
       (demo_request (Some ''alice-token'') (Some ''application/json''))
       (Multi [''alice'', ''new'']) (demo_bucket ''alice'' 500 0))) = 501 \<and>
   status (fst (onRequestPut demo_helpers demo_world ''s''
       (demo_request (Some ''alice-token'') (Some ''application/json''))
       (Multi [''alice'', ''new'']) (demo_bucket ''alice'' 10 200000000))) = 200 \<and>
   length (snd (onRequestPut demo_helpers demo_world ''s''
       (demo_request (Some ''alice-token'') (Some ''application/json''))
       (Multi [''alice'', ''new'']) (demo_bucket ''alice'' 10 200000000))) = 11 \<and>
   status (fst (onRequestPut demo_helpers demo_world ''s''
       (demo_request (Some ''alice-token'') (Some ''application/json''))
       (Multi [''alice'', ''new'']) (demo_bucket ''alice'' 501 0))) = 403 \<and>
   status (fst (onRequestPut demo_helpers demo_world ''s''
       (demo_request (Some ''alice-token'') (Some ''application/json''))
       (Multi [''alice'', ''new'']) (demo_bucket ''alice'' 11 200000000))) = 429"
  by (simp add: put_demo put_checks_demo oneDayMS_def status_refreshed status_errorResponse
        length_update_fresh new_key_fresh length_demo_bucket)

section \<open>Tokens that do not verify\<close>

text \<open>
  C2. When the access token of the request does not verify (\<open>verifyToken\<close> answers
  \<^verbatim>\<open>null\<close> or throws), neither \<open>onRequestPut\<close> nor \<open>onRequestDelete\<close> changes the bucket,
  whatever the rest of the request. When \<open>verifyToken\<close> answers \<^verbatim>\<open>null\<close> and the path has
  two segments, Delete answers 403, and Create answers 403 provided the content type is
  JSON. (The content-type and path checks come before the verification and answer 400.)
\<close>

theorem unverified_token_never_mutates:
  assumes "fst (getTokens h req) = Some a"
    and "verifyToken h a js = Null \<or> (\<exists>m. verifyToken h a js = Throws m)"
  shows "snd (onRequestPut h w js req p b) = b \<and> snd (onRequestDelete h w js req p b) = b \<and>
         (verifyToken h a js = Null \<longrightarrow>
            status (fst (onRequestDelete h w js req (Multi [user, ident]) b)) = 403 \<and>
            (expects_json req \<longrightarrow> status (fst (onRequestPut h w js req (Multi [user, ident]) b)) = 403))"
proof (intro conjI impI)
  show "snd (onRequestPut h w js req p b) = b"
  proof (rule ccontr)
    assume "snd (onRequestPut h w js req p b) \<noteq> b"
    then have "\<exists>a user ident pl. fst (getTokens h req) = Some a \<and> p = Multi [user, ident] \<and>
           verifyToken h a js = Payload pl \<and> sub pl = Some user \<and> role pl = Some ''api''"
      using onRequestPut_proceeds [of h w js req p b] by blast
    with assms show False by auto
  qed
  show "snd (onRequestDelete h w js req p b) = b"
  proof (rule ccontr)
    assume "snd (onRequestDelete h w js req p b) \<noteq> b"
    then have "\<exists>a user ident pl. fst (getTokens h req) = Some a \<and> p = Multi [user, ident] \<and>
           verifyToken h a js = Payload pl \<and> sub pl = Some user \<and> role pl = Some ''api''"
      using onRequestDelete_proceeds [of h w js req p b] by blast
    with assms show False by auto
  qed
next
  assume n: "verifyToken h a js = Null"
  have dc: "delete_checks h js a user = Some (errorResponse 403 ''Access Token does not match username'')"
    using n by (rule delete_checks_unverified(1))
  from onRequestDelete_early [OF assms(1) dc, where w = w and ident = ident and b = b]
  show "status (fst (onRequestDelete h w js req (Multi [user, ident]) b)) = 403"
    by (auto simp: status_errorResponse)
next
  assume n: "verifyToken h a js = Null" and j: "expects_json req"
  have pc: "put_checks h w js a user b = Some (errorResponse 403 ''Invalid Access Token'')"
    using n by (rule put_checks_unverified(1))
  from j onRequestPut_early [OF assms(1) pc, where ident = ident]
  show "status (fst (onRequestPut h w js req (Multi [user, ident]) b)) = 403"
    by (auto simp: status_errorResponse)
qed

theorem unverified_token_witness:
  "fst (getTokens demo_helpers (demo_request (Some ''garbage'') (Some ''application/json''))) = Some ''garbage'' \<and>
   verifyToken demo_helpers ''garbage'' ''s'' = Null \<and>
   expects_json (demo_request (Some ''garbage'') (Some ''application/json'')) \<and>
   snd (onRequestPut demo_helpers demo_world ''s''
     (demo_request (Some ''garbage'') (Some ''application/json'')) (Multi [''alice'', ''x''])
     (demo_bucket ''alice'' 1 0)) = demo_bucket ''alice'' 1 0 \<and>
   snd (onRequestDelete demo_helpers demo_world ''s''
     (demo_request (Some ''garbage'') (Some ''application/json'')) (Multi [''alice'', ''x''])
     (demo_bucket ''alice'' 1 0)) = demo_bucket ''alice'' 1 0 \<and>
   status (fst (onRequestDelete demo_helpers demo_world ''s''
     (demo_request (Some ''garbage'') (Some ''application/json'')) (Multi [''alice'', ''x''])
     (demo_bucket ''alice'' 1 0))) = 403 \<and>
   status (fst (onRequestPut demo_helpers demo_world ''s''
     (demo_request (Some ''garbage'') (Some ''application/json'')) (Multi [''alice'', ''x''])
     (demo_bucket ''alice'' 1 0))) = 403"
proof -
  have t: "fst (getTokens demo_helpers (demo_request (Some ''garbage'') (Some ''application/json''))) = Some ''garbage''"
    by (simp add: demo_tokens)
  have v: "verifyToken demo_helpers ''garbage'' ''s'' = Null \<or>
      (\<exists>m. verifyToken demo_helpers ''garbage'' ''s'' = Throws m)"
    by (simp add: demo_verify_garbage)
  from unverified_token_never_mutates [OF t v, of demo_world "Multi [''alice'', ''x'']"
      "demo_bucket ''alice'' 1 0" "''alice''" "''x''"]
  show ?thesis
    by (simp add: t demo_verify_garbage demo_json)
qed

text \<open>
  The status is not 403 for every such request: a Create whose token does not verify and
  whose content type is \<^verbatim>\<open>text/plain\<close> is answered with 400.
\<close>

theorem unverified_put_counterexample:
  "fst (getTokens demo_helpers (demo_request (Some ''garbage'') (Some ''text/plain''))) = Some ''garbage'' \<and>
   verifyToken demo_helpers ''garbage'' ''s'' = Null \<and>
   status (fst (onRequestPut demo_helpers demo_world ''s''
     (demo_request (Some ''garbage'') (Some ''text/plain'')) (Multi [''alice'', ''x''])
     (demo_bucket ''alice'' 1 0))) = 400"
  by (simp add: demo_tokens demo_verify_garbage onRequestPut_def demo_not_json status_errorResponse)




section \<open>Ownership\<close>

text \<open>
  C4. Create and Delete answer 200, or change the bucket, only when the path is
  \<open>(owner, id)\<close> and the access token verifies to a payload whose subject is \<open>owner\<close> and
  whose role is \<^verbatim>\<open>api\<close>. A request on \<open>(owner, id)\<close> whose verified token has another subject,
  or a role other than \<^verbatim>\<open>api\<close>, changes nothing; Delete answers it with 403, and Create
  answers it with 403, or with 400 when its content type is not JSON. Whenever the content
  of the bucket changes at a key \<open>k\<close>, that key is \<open>owner/id\<close> of the request's path, with
  \<open>owner\<close> the subject of the verified token: every other key keeps what it held, so a token
  for \<^verbatim>\<open>alice\<close> changes nothing under \<^verbatim>\<open>bob/\<close>.
\<close>

theorem mutation_requires_owner_token:
  "((status (fst (onRequestPut h w js req p b)) = 200 \<or> snd (onRequestPut h w js req p b) \<noteq> b) \<longrightarrow>
      (\<exists>a user ident pl. fst (getTokens h req) = Some a \<and> p = Multi [user, ident] \<and>
         verifyToken h a js = Payload pl \<and> sub pl = Some user \<and> role pl = Some ''api'')) \<and>
   ((status (fst (onRequestDelete h w js req p b)) = 200 \<or> snd (onRequestDelete h w js req p b) \<noteq> b) \<longrightarrow>
      (\<exists>a user ident pl. fst (getTokens h req) = Some a \<and> p = Multi [user, ident] \<and>
         verifyToken h a js = Payload pl \<and> sub pl = Some user \<and> role pl = Some ''api'')) \<and>
   (fst (getTokens h req) = Some t \<and> verifyToken h t js = Payload q \<and>
      (sub q \<noteq> Some owner \<or> role q \<noteq> Some ''api'') \<longrightarrow>
      snd (onRequestPut h w js req (Multi [owner, ident]) b) = b \<and>
      snd (onRequestDelete h w js req (Multi [owner, ident]) b) = b \<and>
      status (fst (onRequestDelete h w js req (Multi [owner, ident]) b)) = 403 \<and>
      (status (fst (onRequestPut h w js req (Multi [owner, ident]) b)) = 403 \<or>
       status (fst (onRequestPut h w js req (Multi [owner, ident]) b)) = 400 \<and> \<not> expects_json req)) \<and>
   (map_of (snd (onRequestPut h w js req p b)) k \<noteq> map_of b k \<longrightarrow>
      (\<exists>a user ident pl. fst (getTokens h req) = Some a \<and> p = Multi [user, ident] \<and>
         k = user @ ''/'' @ ident \<and>
         verifyToken h a js = Payload pl \<and> sub pl = Some user \<and> role pl = Some ''api'')) \<and>
   (map_of (snd (onRequestDelete h w js req p b)) k \<noteq> map_of b k \<longrightarrow>
      (\<exists>a user ident pl. fst (getTokens h req) = Some a \<and> p = Multi [user, ident] \<and>
         k = user @ ''/'' @ ident \<and>
         verifyToken h a js = Payload pl \<and> sub pl = Some user \<and> role pl = Some ''api'')) \<and>
   (k \<noteq> owner @ ''/'' @ ident \<longrightarrow>
      map_of (snd (onRequestPut h w js req (Multi [owner, ident]) b)) k = map_of b k \<and>
      map_of (snd (onRequestDelete h w js req (Multi [owner, ident]) b)) k = map_of b k)"
proof (intro conjI impI)
  assume "status (fst (onRequestPut h w js req p b)) = 200 \<or> snd (onRequestPut h w js req p b) \<noteq> b"
  then show "\<exists>a user ident pl. fst (getTokens h req) = Some a \<and> p = Multi [user, ident] \<and>
         verifyToken h a js = Payload pl \<and> sub pl = Some user \<and> role pl = Some ''api''"
    by (rule onRequestPut_proceeds)
next
  assume "status (fst (onRequestDelete h w js req p b)) = 200 \<or> snd (onRequestDelete h w js req p b) \<noteq> b"
  then show "\<exists>a user ident pl. fst (getTokens h req) = Some a \<and> p = Multi [user, ident] \<and>
         verifyToken h a js = Payload pl \<and> sub pl = Some user \<and> role pl = Some ''api''"
    by (rule onRequestDelete_proceeds)
next
  assume a: "fst (getTokens h req) = Some t \<and> verifyToken h t js = Payload q \<and>
      (sub q \<noteq> Some owner \<or> role q \<noteq> Some ''api'')"
  then obtain m where pc: "put_checks h w js t owner b = Some (errorResponse 403 m)"
    using put_checks_mismatch [of h t js q owner w b] by blast
  from a obtain m' where dc: "delete_checks h js t owner = Some (errorResponse 403 m')"
    using delete_checks_mismatch [of h t js q owner] by blast
  from a onRequestPut_early [OF _ pc, of req ident]
  show "snd (onRequestPut h w js req (Multi [owner, ident]) b) = b" by simp
  from a onRequestDelete_early [OF _ dc, of req w ident b]
  show "snd (onRequestDelete h w js req (Multi [owner, ident]) b) = b" by simp
  from a onRequestDelete_early [OF _ dc, of req w ident b]
  show "status (fst (onRequestDelete h w js req (Multi [owner, ident]) b)) = 403"
    by (auto simp: status_errorResponse)
  from a onRequestPut_early [OF _ pc, of req ident]
  show "status (fst (onRequestPut h w js req (Multi [owner, ident]) b)) = 403 \<or>
       status (fst (onRequestPut h w js req (Multi [owner, ident]) b)) = 400 \<and> \<not> expects_json req"
    by (auto simp: status_errorResponse)
next
  assume "map_of (snd (onRequestPut h w js req p b)) k \<noteq> map_of b k"
  then show "\<exists>a user ident pl. fst (getTokens h req) = Some a \<and> p = Multi [user, ident] \<and>
         k = user @ ''/'' @ ident \<and>
         verifyToken h a js = Payload pl \<and> sub pl = Some user \<and> role pl = Some ''api''"
    by (rule onRequestPut_changes)
next
  assume "map_of (snd (onRequestDelete h w js req p b)) k \<noteq> map_of b k"
  then show "\<exists>a user ident pl. fst (getTokens h req) = Some a \<and> p = Multi [user, ident] \<and>
         k = user @ ''/'' @ ident \<and>
         verifyToken h a js = Payload pl \<and> sub pl = Some user \<and> role pl = Some ''api''"
    by (rule onRequestDelete_changes)
next
  assume k: "k \<noteq> owner @ ''/'' @ ident"
  show "map_of (snd (onRequestPut h w js req (Multi [owner, ident]) b)) k = map_of b k"
    using k onRequestPut_changes [of h w js req "Multi [owner, ident]" b k] by auto
  show "map_of (snd (onRequestDelete h w js req (Multi [owner, ident]) b)) k = map_of b k"
    using k onRequestDelete_changes [of h w js req "Multi [owner, ident]" b k] by auto
qed

theorem mutation_requires_owner_witness:
  "status (fst (onRequestPut demo_helpers demo_world ''s''
     (demo_request (Some ''alice-token'') (Some ''application/json'')) (Multi [''alice'', ''123'']) [])) = 200 \<and>
   status (fst (onRequestDelete demo_helpers demo_world ''s''
     (demo_request (Some ''alice-token'') None) (Multi [''alice'', ''123'']) [])) = 200 \<and>
   (\<exists>a user ident pl.
      fst (getTokens demo_helpers (demo_request (Some ''alice-token'') (Some ''application/json''))) = Some a \<and>
      Multi [''alice'', ''123''] = Multi [user, ident] \<and>
      verifyToken demo_helpers a ''s'' = Payload pl \<and> sub pl = Some user \<and> role pl = Some ''api'') \<and>
   fst (getTokens demo_helpers (demo_request (Some ''alice-token'') (Some ''application/json''))) = Some ''alice-token'' \<and>
   verifyToken demo_helpers ''alice-token'' ''s'' = Payload \<lparr>sub = Some ''alice'', role = Some ''api''\<rparr> \<and>
   sub \<lparr>sub = Some ''alice'', role = Some ''api''\<rparr> \<noteq> Some ''bob'' \<and>
   snd (onRequestPut demo_helpers demo_world ''s''
     (demo_request (Some ''alice-token'') (Some ''application/json'')) (Multi [''bob'', ''x''])
     (demo_bucket ''bob'' 1 0)) = demo_bucket ''bob'' 1 0 \<and>
   snd (onRequestDelete demo_helpers demo_world ''s''
     (demo_request (Some ''alice-token'') (Some ''application/json'')) (Multi [''bob'', ''x''])
     (demo_bucket ''bob'' 1 0)) = demo_bucket ''bob'' 1 0 \<and>
   status (fst (onRequestDelete demo_helpers demo_world ''s''
     (demo_request (Some ''alice-token'') (Some ''application/json'')) (Multi [''bob'', ''x''])
     (demo_bucket ''bob'' 1 0))) = 403 \<and>
   status (fst (onRequestPut demo_helpers demo_world ''s''
     (demo_request (Some ''alice-token'') (Some ''application/json'')) (Multi [''bob'', ''x''])
     (demo_bucket ''bob'' 1 0))) = 403 \<and>
   map_of (snd (onRequestPut demo_helpers demo_world ''s''
     (demo_request (Some ''alice-token'') (Some ''application/json'')) (Multi [''alice'', ''123'']) []))
     ''alice/123'' \<noteq> map_of [] ''alice/123'' \<and>
   (\<exists>a user ident pl.
      fst (getTokens demo_helpers (demo_request (Some ''alice-token'') (Some ''application/json''))) = Some a \<and>
      Multi [''alice'', ''123''] = Multi [user, ident] \<and> ''alice/123'' = user @ ''/'' @ ident \<and>
      verifyToken demo_helpers a ''s'' = Payload pl \<and> sub pl = Some user \<and> role pl = Some ''api'') \<and>
   map_of (snd (onRequestDelete demo_helpers demo_world ''s''
     (demo_request (Some ''alice-token'') (Some ''application/json'')) (Multi [''alice'', ''x''])
     (demo_bucket ''alice'' 1 0))) ''alice/x'' \<noteq> map_of (demo_bucket ''alice'' 1 0) ''alice/x'' \<and>
   (\<exists>a user ident pl.
      fst (getTokens demo_helpers (demo_request (Some ''alice-token'') (Some ''application/json''))) = Some a \<and>
      Multi [''alice'', ''x''] = Multi [user, ident] \<and> ''alice/x'' = user @ ''/'' @ ident \<and>
      verifyToken demo_helpers a ''s'' = Payload pl \<and> sub pl = Some user \<and> role pl = Some ''api'') \<and>
   ''bob/x'' \<noteq> ''alice'' @ ''/'' @ ''x'' \<and>
   map_of (snd (onRequestPut demo_helpers demo_world ''s''
     (demo_request (Some ''alice-token'') (Some ''application/json'')) (Multi [''alice'', ''x''])
     (demo_bucket ''bob'' 1 0))) ''bob/x'' = Some (demo_object 0) \<and>
   map_of (snd (onRequestDelete demo_helpers demo_world ''s''
     (demo_request (Some ''alice-token'') (Some ''application/json'')) (Multi [''alice'', ''x''])
     (demo_bucket ''bob'' 1 0))) ''bob/x'' = Some (demo_object 0)"
proof -
  let ?req = "demo_request (Some ''alice-token'') (Some ''application/json'')"
  have p: "status (fst (onRequestPut demo_helpers demo_world ''s'' ?req (Multi [''alice'', ''123'']) [])) = 200"
    by (simp add: put_alice_empty status_refreshed)
  have d: "status (fst (onRequestDelete demo_helpers demo_world ''s''
     (demo_request (Some ''alice-token'') None) (Multi [''alice'', ''123'']) [])) = 200"
    by (simp add: delete_alice_empty status_refreshed)
  have pk: "map_of (snd (onRequestPut demo_helpers demo_world ''s'' ?req (Multi [''alice'', ''123'']) []))
      ''alice/123'' \<noteq> map_of [] ''alice/123''"
    by (simp add: put_alice_empty_bucket)
  have dk: "map_of (snd (onRequestDelete demo_helpers demo_world ''s'' ?req (Multi [''alice'', ''x''])
      (demo_bucket ''alice'' 1 0))) ''alice/x'' \<noteq> map_of (demo_bucket ''alice'' 1 0) ''alice/x''"
    by (simp add: delete_alice_stored) (simp add: demo_bucket_Suc0)
  have bob: "map_of (demo_bucket ''bob'' 1 0) ''bob/x'' = Some (demo_object 0)"
    by (simp add: demo_bucket_def)
  have far: "''bob/x'' \<noteq> ''alice'' @ ''/'' @ ''x''" by simp
  note a = mutation_requires_owner_token [where h = demo_helpers and w = demo_world and js = "''s''"
      and req = ?req and p = "Multi [''alice'', ''123'']" and b = "[]" and k = "''alice/123''"]
  note b = mutation_requires_owner_token [where h = demo_helpers and w = demo_world and js = "''s''"
      and req = ?req and p = "Multi [''bob'', ''x'']" and b = "demo_bucket ''bob'' 1 0"
      and t = "''alice-token''" and q = "\<lparr>sub = Some ''alice'', role = Some ''api''\<rparr>"
      and owner = "''bob''" and ident = "''x''"]
  note c = mutation_requires_owner_token [where h = demo_helpers and w = demo_world and js = "''s''"
      and req = ?req and p = "Multi [''alice'', ''x'']" and b = "demo_bucket ''alice'' 1 0"
      and k = "''alice/x''"]
  note l = mutation_requires_owner_token [where h = demo_helpers and w = demo_world and js = "''s''"
      and req = ?req and b = "demo_bucket ''bob'' 1 0" and owner = "''alice''" and ident = "''x''"
      and k = "''bob/x''"]
  from a p have e: "\<exists>a user ident pl.
      fst (getTokens demo_helpers ?req) = Some a \<and>
      Multi [''alice'', ''123''] = Multi [user, ident] \<and>
      verifyToken demo_helpers a ''s'' = Payload pl \<and> sub pl = Some user \<and> role pl = Some ''api''"
    by blast
  from a pk have ek: "\<exists>a user ident pl.
      fst (getTokens demo_helpers ?req) = Some a \<and>
      Multi [''alice'', ''123''] = Multi [user, ident] \<and> ''alice/123'' = user @ ''/'' @ ident \<and>
      verifyToken demo_helpers a ''s'' = Payload pl \<and> sub pl = Some user \<and> role pl = Some ''api''"
    by blast
  from c dk have ed: "\<exists>a user ident pl.
      fst (getTokens demo_helpers ?req) = Some a \<and>
      Multi [''alice'', ''x''] = Multi [user, ident] \<and> ''alice/x'' = user @ ''/'' @ ident \<and>
      verifyToken demo_helpers a ''s'' = Payload pl \<and> sub pl = Some user \<and> role pl = Some ''api''"
    by blast
  from b have r: "snd (onRequestPut demo_helpers demo_world ''s'' ?req (Multi [''bob'', ''x''])
     (demo_bucket ''bob'' 1 0)) = demo_bucket ''bob'' 1 0 \<and>
   snd (onRequestDelete demo_helpers demo_world ''s'' ?req (Multi [''bob'', ''x''])
     (demo_bucket ''bob'' 1 0)) = demo_bucket ''bob'' 1 0 \<and>
   status (fst (onRequestDelete demo_helpers demo_world ''s'' ?req (Multi [''bob'', ''x''])
     (demo_bucket ''bob'' 1 0))) = 403 \<and>
   status (fst (onRequestPut demo_helpers demo_world ''s'' ?req (Multi [''bob'', ''x''])
     (demo_bucket ''bob'' 1 0))) = 403"
    by (simp add: demo_tokens demo_verify_alice demo_json)
  from l far bob have loc: "map_of (snd (onRequestPut demo_helpers demo_world ''s'' ?req (Multi [''alice'', ''x''])
     (demo_bucket ''bob'' 1 0))) ''bob/x'' = Some (demo_object 0) \<and>
   map_of (snd (onRequestDelete demo_helpers demo_world ''s'' ?req (Multi [''alice'', ''x''])
     (demo_bucket ''bob'' 1 0))) ''bob/x'' = Some (demo_object 0)"
    by simp
  have tv: "fst (getTokens demo_helpers ?req) = Some ''alice-token''"
    "verifyToken demo_helpers ''alice-token'' ''s'' = Payload \<lparr>sub = Some ''alice'', role = Some ''api''\<rparr>"
    by (simp_all add: demo_tokens demo_verify_alice)
  from p d e tv r pk ek dk ed far loc show ?thesis
    by (intro conjI) simp_all
qed

text \<open>
  The rejection is not always a 403: a Create on \<^verbatim>\<open>bob/chat1\<close> with the token of \<^verbatim>\<open>alice\<close> and
  the content type \<^verbatim>\<open>text/plain\<close> is answered with 400.
\<close>

theorem foreign_token_counterexample:
  "fst (getTokens demo_helpers (demo_request (Some ''alice-token'') (Some ''text/plain''))) = Some ''alice-token'' \<and>
   verifyToken demo_helpers ''alice-token'' ''s'' = Payload \<lparr>sub = Some ''alice'', role = Some ''api''\<rparr> \<and>
   ''alice'' \<noteq> ''bob'' \<and>
   status (fst (onRequestPut demo_helpers demo_world ''s''
     (demo_request (Some ''alice-token'') (Some ''text/plain'')) (Multi [''bob'', ''chat1''])
     (demo_bucket ''bob'' 1 0))) = 400 \<and>
   status (fst (onRequestPut demo_helpers demo_world ''s''
     (demo_request (Some ''alice-token'') (Some ''text/plain'')) (Multi [''bob'', ''chat1''])
     (demo_bucket ''bob'' 1 0))) \<noteq> 403"
  by (simp add: demo_tokens demo_verify_alice onRequestPut_def demo_not_json status_errorResponse)

section \<open>Path shape\<close>

text \<open>
  C5. When the path has not exactly two segments, Read answers 400; Create and Delete answer
  400 when both cookies are present and non-empty, and 403 when one of them is missing,
  since they check the cookies before the path.
\<close>

theorem bad_shape_is_checked_after_cookies:
  assumes "two_segments p = None"
  shows "status (onRequestGet w p b) = 400 \<and>
         (truthy (fst (getTokens h req)) \<and> truthy (snd (getTokens h req)) \<longrightarrow>
            status (fst (onRequestPut h w js req p b)) = 400 \<and>
            status (fst (onRequestDelete h w js req p b)) = 400) \<and>
         (\<not> (truthy (fst (getTokens h req)) \<and> truthy (snd (getTokens h req))) \<longrightarrow>
            status (fst (onRequestPut h w js req p b)) = 403 \<and>
            status (fst (onRequestDelete h w js req p b)) = 403)"
  using assms
  by (cases "getTokens h req")
     (auto simp: onRequestGet_def onRequestPut_def onRequestDelete_def status_bad_shape
        status_errorResponse split: option.splits)

theorem bad_shape_witness:
  "two_segments (Multi [''alice'', ''123'', ''extra'']) = None \<and>
   status (onRequestGet demo_world (Multi [''alice'', ''123'', ''extra'']) []) = 400 \<and>
   truthy (fst (getTokens demo_helpers (demo_request (Some ''alice-token'') (Some ''application/json'')))) \<and>
   truthy (snd (getTokens demo_helpers (demo_request (Some ''alice-token'') (Some ''application/json'')))) \<and>
   status (fst (onRequestPut demo_helpers demo_world ''s''
     (demo_request (Some ''alice-token'') (Some ''application/json'')) (Multi [''alice'', ''123'', ''extra'']) [])) = 400 \<and>
   status (fst (onRequestDelete demo_helpers demo_world ''s''
     (demo_request (Some ''alice-token'') (Some ''application/json'')) (Multi [''alice'', ''123'', ''extra'']) [])) = 400 \<and>
   \<not> truthy (fst (getTokens demo_helpers (demo_request None (Some ''application/json'')))) \<and>
   status (fst (onRequestPut demo_helpers demo_world ''s''
     (demo_request None (Some ''application/json'')) (Multi [''alice'', ''123'', ''extra'']) [])) = 403 \<and>
   status (fst (onRequestDelete demo_helpers demo_world ''s''
     (demo_request None (Some ''application/json'')) (Multi [''alice'', ''123'', ''extra'']) [])) = 403"
proof -
  have s: "two_segments (Multi [''alice'', ''123'', ''extra'']) = None" by simp
  note a = bad_shape_is_checked_after_cookies [OF s, of demo_world "[]" demo_helpers
      "demo_request (Some ''alice-token'') (Some ''application/json'')" "''s''"]
  note b = bad_shape_is_checked_after_cookies [OF s, of demo_world "[]" demo_helpers
      "demo_request None (Some ''application/json'')" "''s''"]
  from a b show ?thesis
    by (simp add: demo_tokens demo_no_tokens)
qed

text \<open>
  A one-segment path does not give 400 on every request: without cookies Delete and Create
  answer 403.
\<close>

theorem bad_shape_without_cookies_counterexample:
  "two_segments (Single ''alice'') = None \<and>
   status (fst (onRequestDelete demo_helpers demo_world ''s''
     (demo_request None (Some ''application/json'')) (Single ''alice'') [])) = 403 \<and>
   status (fst (onRequestPut demo_helpers demo_world ''s''
     (demo_request None (Some ''application/json'')) (Single ''alice'') [])) = 403"
  by (simp add: onRequestDelete_def onRequestPut_def demo_no_tokens status_errorResponse)

section \<open>Read\<close>

text \<open>
  C8. \<open>onRequestGet\<close> takes neither the request nor the token helpers: it reads no cookie and
  verifies no token. Its response never has a \<^verbatim>\<open>Set-Cookie\<close> header. On a two-segment path,
  when the store answers, an absent object gives 404 and a present one gives 200 with the
  stored body as a stream, the stored content type (if any) as \<^verbatim>\<open>content-type\<close> and the
  object's \<^verbatim>\<open>etag\<close>; when the store throws, the answer is 500 with the message.
\<close>

theorem read_is_public_and_cookie_free:
  "set_cookies (onRequestGet w p b) = [] \<and>
   (fault w Op_get = None \<and> map_of b (user @ ''/'' @ ident) = None \<longrightarrow>
      status (onRequestGet w (Multi [user, ident]) b) = 404) \<and>
   (fault w Op_get = None \<and> map_of b (user @ ''/'' @ ident) = Some ob \<longrightarrow>
      status (onRequestGet w (Multi [user, ident]) b) = 200 \<and>
      resp_body (onRequestGet w (Multi [user, ident]) b) = Stream (obj_body ob) \<and>
      header ''etag'' (onRequestGet w (Multi [user, ident]) b) = Some (httpEtag ob) \<and>
      header ''content-type'' (onRequestGet w (Multi [user, ident]) b) = contentType (httpMetadata ob)) \<and>
   (fault w Op_get = Some e \<longrightarrow>
      onRequestGet w (Multi [user, ident]) b = errorResponse 500 (''Unable to get chat: '' @ e))"
proof (intro conjI impI)
  show "set_cookies (onRequestGet w p b) = []" by (rule onRequestGet_no_cookies)
next
  assume "fault w Op_get = None \<and> map_of b (user @ ''/'' @ ident) = None"
  then show "status (onRequestGet w (Multi [user, ident]) b) = 404"
    by (simp add: onRequestGet_def r2_get_def status_errorResponse)
next
  assume a: "fault w Op_get = None \<and> map_of b (user @ ''/'' @ ident) = Some ob"
  then have r: "onRequestGet w (Multi [user, ident]) b =
      \<lparr>status = 200,
       headers = headers_set ''etag'' (httpEtag ob) (writeHttpMetadata (httpMetadata ob)),
       resp_body = Stream (obj_body ob)\<rparr>"
    by (simp add: onRequestGet_def r2_get_def)
  show "status (onRequestGet w (Multi [user, ident]) b) = 200" by (simp add: r)
  show "resp_body (onRequestGet w (Multi [user, ident]) b) = Stream (obj_body ob)" by (simp add: r)
  show "header ''etag'' (onRequestGet w (Multi [user, ident]) b) = Some (httpEtag ob)"
    by (simp add: r header_def map_of_headers_set)
  show "header ''content-type'' (onRequestGet w (Multi [user, ident]) b) = contentType (httpMetadata ob)"
    by (simp add: r header_def map_of_headers_set_other content_type_of_metadata)
next
  assume "fault w Op_get = Some e"
  then show "onRequestGet w (Multi [user, ident]) b = errorResponse 500 (''Unable to get chat: '' @ e)"
    by (simp add: onRequestGet_def r2_get_def)
qed

theorem read_witness:
  "fault demo_world Op_get = None \<and>
   map_of (demo_bucket ''alice'' 1 0) (''alice'' @ ''/'' @ ''999'') = None \<and>
   status (onRequestGet demo_world (Multi [''alice'', ''999'']) (demo_bucket ''alice'' 1 0)) = 404 \<and>
   map_of (demo_bucket ''alice'' 1 0) (''alice'' @ ''/'' @ ''x'') = Some (demo_object 0) \<and>
   status (onRequestGet demo_world (Multi [''alice'', ''x'']) (demo_bucket ''alice'' 1 0)) = 200 \<and>
   resp_body (onRequestGet demo_world (Multi [''alice'', ''x'']) (demo_bucket ''alice'' 1 0)) = Stream ''chat'' \<and>
   header ''etag'' (onRequestGet demo_world (Multi [''alice'', ''x'']) (demo_bucket ''alice'' 1 0)) = Some ''abc'' \<and>
   header ''content-type'' (onRequestGet demo_world (Multi [''alice'', ''x'']) (demo_bucket ''alice'' 1 0)) =
     Some ''application/json'' \<and>
   set_cookies (onRequestGet demo_world (Multi [''alice'', ''x'']) (demo_bucket ''alice'' 1 0)) = [] \<and>
   fault broken_world Op_get = Some ''store unreachable'' \<and>
   onRequestGet broken_world (Multi [''alice'', ''x'']) (demo_bucket ''alice'' 1 0) =
     errorResponse 500 ''Unable to get chat: store unreachable''"
proof -
  have f: "fault broken_world Op_get = Some ''store unreachable''" by (simp add: broken_world_def)
  have m1: "map_of (demo_bucket ''alice'' 1 0) (''alice'' @ ''/'' @ ''999'') = None"
    by (simp add: demo_bucket_Suc0)
  have m2: "map_of (demo_bucket ''alice'' 1 0) (''alice'' @ ''/'' @ ''x'') = Some (demo_object 0)"
    by (simp add: demo_bucket_Suc0)
  note a = read_is_public_and_cookie_free [of demo_world "Multi [''alice'', ''x'']"
      "demo_bucket ''alice'' 1 0" "''alice''" "''999''" "demo_object 0" "''none''"]
  note b = read_is_public_and_cookie_free [of demo_world "Multi [''alice'', ''x'']"
      "demo_bucket ''alice'' 1 0" "''alice''" "''x''" "demo_object 0" "''none''"]
  note c = read_is_public_and_cookie_free [of broken_world "Multi [''alice'', ''x'']"
      "demo_bucket ''alice'' 1 0" "''alice''" "''x''" "demo_object 0" "''store unreachable''"]
  from a b c f m1 m2 show ?thesis
    by (simp add: demo_fault demo_object_fields)
qed

section \<open>Delete\<close>

text \<open>
  C9. A Delete with both cookies, a two-segment path \<open>(user, id)\<close> and a token that verifies
  to the subject \<open>user\<close> with the role \<^verbatim>\<open>api\<close> answers, when the store's delete does not throw,
  200 with the message \<^verbatim>\<open>Chat deleted successfully\<close>. The response is the same for every
  content of the bucket, so also when nothing is stored under the key; in that case the
  bucket is left as it was. The delete is issued in every case: the bucket afterwards is the
  bucket before with the key \<open>user/id\<close> deleted, nothing is stored under that key any more,
  and every other key keeps what it held.
\<close>

theorem delete_ignores_existence:
  assumes "getTokens h req = (Some a, Some i)" and "a \<noteq> []" and "i \<noteq> []"
    and "verifyToken h a js = Payload pl" and "sub pl = Some user" and "role pl = Some ''api''"
    and "fault w Op_delete = None"
  shows "fst (onRequestDelete h w js req (Multi [user, ident]) b) =
           refreshed h ''Chat deleted successfully'' a i \<and>
         status (fst (onRequestDelete h w js req (Multi [user, ident]) b)) = 200 \<and>
         resp_body (fst (onRequestDelete h w js req (Multi [user, ident]) b)) =
           Json_message ''Chat deleted successfully'' \<and>
         fst (onRequestDelete h w js req (Multi [user, ident]) b') =
           fst (onRequestDelete h w js req (Multi [user, ident]) b) \<and>
         (map_of b (user @ ''/'' @ ident) = None \<longrightarrow>
            snd (onRequestDelete h w js req (Multi [user, ident]) b) = b) \<and>
         snd (onRequestDelete h w js req (Multi [user, ident]) b) =
           AList.delete (user @ ''/'' @ ident) b \<and>
         map_of (snd (onRequestDelete h w js req (Multi [user, ident]) b)) (user @ ''/'' @ ident) = None \<and>
         (k \<noteq> user @ ''/'' @ ident \<longrightarrow>
            map_of (snd (onRequestDelete h w js req (Multi [user, ident]) b)) k = map_of b k)"
proof -
  have dc: "delete_checks h js a user = None"
    using assms(4-6) by (simp add: delete_checks_def)
  have run: "onRequestDelete h w js req (Multi [user, ident]) c =
      (refreshed h ''Chat deleted successfully'' a i, AList.delete (user @ ''/'' @ ident) c)" for c
    using assms(1-3,7) dc by (simp add: onRequestDelete_def delete_store_def r2_delete_def)
  show ?thesis
    by (simp add: run delete_absent_key delete_conv') (simp add: refreshed_def)
qed

theorem delete_absent_witness:
  "getTokens demo_helpers (demo_request (Some ''alice-token'') None) = (Some ''alice-token'', Some ''id-token'') \<and>
   verifyToken demo_helpers ''alice-token'' ''s'' = Payload \<lparr>sub = Some ''alice'', role = Some ''api''\<rparr> \<and>
   fault demo_world Op_delete = None \<and>
   map_of (demo_bucket ''alice'' 1 0) (''alice'' @ ''/'' @ ''missing'') = None \<and>
   status (fst (onRequestDelete demo_helpers demo_world ''s'' (demo_request (Some ''alice-token'') None)
     (Multi [''alice'', ''missing'']) (demo_bucket ''alice'' 1 0))) = 200 \<and>
   resp_body (fst (onRequestDelete demo_helpers demo_world ''s'' (demo_request (Some ''alice-token'') None)
     (Multi [''alice'', ''missing'']) (demo_bucket ''alice'' 1 0))) = Json_message ''Chat deleted successfully'' \<and>
   snd (onRequestDelete demo_helpers demo_world ''s'' (demo_request (Some ''alice-token'') None)
     (Multi [''alice'', ''missing'']) (demo_bucket ''alice'' 1 0)) = demo_bucket ''alice'' 1 0 \<and>
   status (fst (onRequestDelete demo_helpers demo_world ''s'' (demo_request (Some ''alice-token'') None)
     (Multi [''alice'', ''x'']) (demo_bucket ''alice'' 2 0))) = 200 \<and>
   snd (onRequestDelete demo_helpers demo_world ''s'' (demo_request (Some ''alice-token'') None)
     (Multi [''alice'', ''x'']) (demo_bucket ''alice'' 2 0)) = [(''alice/xx'', demo_object 0)] \<and>
   map_of (demo_bucket ''alice'' 2 0) ''alice/x'' = Some (demo_object 0) \<and>
   map_of (snd (onRequestDelete demo_helpers demo_world ''s'' (demo_request (Some ''alice-token'') None)
     (Multi [''alice'', ''x'']) (demo_bucket ''alice'' 2 0))) ''alice/x'' = None \<and>
   ''alice/xx'' \<noteq> ''alice'' @ ''/'' @ ''x'' \<and>
   map_of (snd (onRequestDelete demo_helpers demo_world ''s'' (demo_request (Some ''alice-token'') None)
     (Multi [''alice'', ''x'']) (demo_bucket ''alice'' 2 0))) ''alice/xx'' = Some (demo_object 0)"
proof -
  have n: "''alice-token'' \<noteq> []" "''id-token'' \<noteq> []" by simp_all
  have m: "map_of (demo_bucket ''alice'' 1 0) (''alice'' @ ''/'' @ ''missing'') = None"
    by (simp add: demo_bucket_Suc0)
  have s: "sub \<lparr>sub = Some ''alice'', role = Some ''api''\<rparr> = Some ''alice''"
    "role \<lparr>sub = Some ''alice'', role = Some ''api''\<rparr> = Some ''api''" by simp_all
  have t: "getTokens demo_helpers (demo_request (Some ''alice-token'') None) =
      (Some ''alice-token'', Some ''id-token'')"
    by (rule demo_tokens)
  have v: "verifyToken demo_helpers ''alice-token'' ''s'' =
      Payload \<lparr>sub = Some ''alice'', role = Some ''api''\<rparr>"
    by (rule demo_verify_alice)
  note absent = delete_ignores_existence [OF t n v s demo_fault,
      where ident = "''missing''" and b = "demo_bucket ''alice'' 1 0" and b' = "[]"
        and k = "''alice/xx''"]
  note present = delete_ignores_existence [OF t n v s demo_fault,
      where ident = "''x''" and b = "demo_bucket ''alice'' 2 0" and b' = "[]"
        and k = "''alice/xx''"]
  from absent m have A: "status (fst (onRequestDelete demo_helpers demo_world ''s'' (demo_request (Some ''alice-token'') None)
     (Multi [''alice'', ''missing'']) (demo_bucket ''alice'' 1 0))) = 200 \<and>
   resp_body (fst (onRequestDelete demo_helpers demo_world ''s'' (demo_request (Some ''alice-token'') None)
     (Multi [''alice'', ''missing'']) (demo_bucket ''alice'' 1 0))) = Json_message ''Chat deleted successfully'' \<and>
   snd (onRequestDelete demo_helpers demo_world ''s'' (demo_request (Some ''alice-token'') None)
     (Multi [''alice'', ''missing'']) (demo_bucket ''alice'' 1 0)) = demo_bucket ''alice'' 1 0"
    by blast
  from present have P: "status (fst (onRequestDelete demo_helpers demo_world ''s'' (demo_request (Some ''alice-token'') None)
     (Multi [''alice'', ''x'']) (demo_bucket ''alice'' 2 0))) = 200 \<and>
   snd (onRequestDelete demo_helpers demo_world ''s'' (demo_request (Some ''alice-token'') None)
     (Multi [''alice'', ''x'']) (demo_bucket ''alice'' 2 0)) = [(''alice/xx'', demo_object 0)] \<and>
   map_of (snd (onRequestDelete demo_helpers demo_world ''s'' (demo_request (Some ''alice-token'') None)
     (Multi [''alice'', ''x'']) (demo_bucket ''alice'' 2 0))) ''alice/x'' = None \<and>
   map_of (snd (onRequestDelete demo_helpers demo_world ''s'' (demo_request (Some ''alice-token'') None)
     (Multi [''alice'', ''x'']) (demo_bucket ''alice'' 2 0))) ''alice/xx'' = Some (demo_object 0)"
    by (simp add: demo_bucket_two refreshed_def)
  from A P t v m show ?thesis
    by (simp add: demo_fault demo_bucket_two)
qed

section \<open>Cookies of a successful mutation\<close>

text \<open>
  C10. When Create or Delete answers 200, the request carried an access token \<open>a\<close> and an
  identity token \<open>i\<close>, and the \<^verbatim>\<open>Set-Cookie\<close> headers of the response are exactly
  \<open>serializeToken ''access_token'' a\<close> and \<open>serializeToken ''id_token'' i\<close>, in this order: the
  token strings of the request, unchanged.
\<close>

theorem success_cookies_are_request_tokens:
  "(status (fst (onRequestPut h w js req p b)) = 200 \<longrightarrow>
      (\<exists>a i. getTokens h req = (Some a, Some i) \<and>
         set_cookies (fst (onRequestPut h w js req p b)) =
           [serializeToken h ''access_token'' a, serializeToken h ''id_token'' i])) \<and>
   (status (fst (onRequestDelete h w js req p b)) = 200 \<longrightarrow>
      (\<exists>a i. getTokens h req = (Some a, Some i) \<and>
         set_cookies (fst (onRequestDelete h w js req p b)) =
           [serializeToken h ''access_token'' a, serializeToken h ''id_token'' i]))"
proof (intro conjI impI)
  assume ok: "status (fst (onRequestPut h w js req p b)) = 200"
  with onRequestPut_cases [of h w js req p b]
  obtain a i user ident where t: "getTokens h req = (Some a, Some i)"
    and run: "onRequestPut h w js req p b = put_store h w req (join_slash [user, ident]) a i b"
    by auto
  obtain r b' where rb: "put_store h w req (join_slash [user, ident]) a i b = (r, b')"
    by (cases "put_store h w req (join_slash [user, ident]) a i b")
  from put_store_cases [OF rb] ok run rb
  have "r = refreshed h ''Chat shared successfully'' a i" by auto
  with t run rb show "\<exists>a i. getTokens h req = (Some a, Some i) \<and>
         set_cookies (fst (onRequestPut h w js req p b)) =
           [serializeToken h ''access_token'' a, serializeToken h ''id_token'' i]"
    by (simp add: cookies_refreshed)
next
  assume ok: "status (fst (onRequestDelete h w js req p b)) = 200"
  with onRequestDelete_cases [of h w js req p b]
  obtain a i user ident where t: "getTokens h req = (Some a, Some i)"
    and run: "onRequestDelete h w js req p b = delete_store h w (join_slash [user, ident]) a i b"
    by auto
  obtain r b' where rb: "delete_store h w (join_slash [user, ident]) a i b = (r, b')"
    by (cases "delete_store h w (join_slash [user, ident]) a i b")
  from delete_store_cases [OF rb] ok run rb
  have "r = refreshed h ''Chat deleted successfully'' a i" by auto
  with t run rb show "\<exists>a i. getTokens h req = (Some a, Some i) \<and>
         set_cookies (fst (onRequestDelete h w js req p b)) =
           [serializeToken h ''access_token'' a, serializeToken h ''id_token'' i]"
    by (simp add: cookies_refreshed)
qed

theorem success_cookies_witness:
  "status (fst (onRequestPut demo_helpers demo_world ''s''
       (demo_request (Some ''alice-token'') (Some ''application/json'')) (Multi [''alice'', ''123'']) [])) = 200 \<and>
   set_cookies (fst (onRequestPut demo_helpers demo_world ''s''
       (demo_request (Some ''alice-token'') (Some ''application/json'')) (Multi [''alice'', ''123'']) [])) =
     [''access_token=alice-token'', ''id_token=id-token''] \<and>
   status (fst (onRequestDelete demo_helpers demo_world ''s''
       (demo_request (Some ''alice-token'') (Some ''application/json'')) (Multi [''alice'', ''123'']) [])) = 200 \<and>
   set_cookies (fst (onRequestDelete demo_helpers demo_world ''s''
       (demo_request (Some ''alice-token'') (Some ''application/json'')) (Multi [''alice'', ''123'']) [])) =
     [''access_token=alice-token'', ''id_token=id-token'']"
proof -
  let ?req = "demo_request (Some ''alice-token'') (Some ''application/json'')"
  let ?p = "fst (onRequestPut demo_helpers demo_world ''s'' ?req (Multi [''alice'', ''123'']) [])"
  let ?d = "fst (onRequestDelete demo_helpers demo_world ''s'' ?req (Multi [''alice'', ''123'']) [])"
  have okp: "status ?p = 200" by (simp add: put_alice_empty status_refreshed)
  have okd: "status ?d = 200" by (simp add: delete_alice_empty status_refreshed)
  have ser: "serializeToken demo_helpers name t = name @ ''='' @ t" for name t
    by (simp add: demo_helpers_def)
  note a = success_cookies_are_request_tokens [of demo_helpers demo_world "''s''" ?req
      "Multi [''alice'', ''123'']" "[]"]
  from a okp have "set_cookies ?p = [''access_token=alice-token'', ''id_token=id-token'']"
    by (auto simp: demo_tokens ser)
  moreover from a okd have "set_cookies ?d = [''access_token=alice-token'', ''id_token=id-token'']"
    by (auto simp: demo_tokens ser)
  ultimately show ?thesis using okp okd by simp
qed

end
